theory Spec2Isabelle
  imports Main "HOL-Library.AList" "HOL-Library.Char_ord" "HOL-Library.List_Lexorder"
begin

section \<open>Python values and the json module\<close>

text \<open>
  The service (\<^verbatim>\<open>main.py\<close>) keeps no state of its own: everything lives in two S3
  buckets, and the handlers move JSON text between them. The model has three layers:
  the Python values that \<^verbatim>\<open>json.dumps\<close> and \<^verbatim>\<open>json.loads\<close> exchange, the S3 client
  (\<^verbatim>\<open>boto3\<close>) as an explicit state, and the three handlers on top of it.

  Python text is modelled as \<^typ>\<open>string\<close>, one \<^typ>\<open>char\<close> per code point, so the model
  covers the code points 0 to 255. A \<open>dict\<close> is an association list in insertion order.
  A float is carried by the literal it was read from.
\<close>

datatype json =
    JNull
  | JBool bool
  | JInt int
  | JFloat string
  | JString string
  | JArray "json list"
  | JObject "(string \<times> json) list"

subsection \<open>json.dumps\<close>

definition hex_digit :: "nat \<Rightarrow> char" where
  "hex_digit d = ''0123456789abcdef'' ! (d mod 16)"

text \<open>
  \<^verbatim>\<open>py_encode_basestring_ascii\<close>: the backslash, the double quote and five control
  characters have short escapes; every other character outside \<open>' '..'~'\<close> is written
  \<^verbatim>\<open>\uXXXX\<close> (\<open>ensure_ascii\<close> is on by default).
\<close>

definition escape_char :: "char \<Rightarrow> string" where
  "escape_char c =
     (if c = CHR 0x5C then [CHR 0x5C, CHR 0x5C]
      else if c = CHR 0x22 then [CHR 0x5C, CHR 0x22]
      else if c = CHR 0x08 then [CHR 0x5C, CHR ''b'']
      else if c = CHR 0x0C then [CHR 0x5C, CHR ''f'']
      else if c = CHR 0x0A then [CHR 0x5C, CHR ''n'']
      else if c = CHR 0x0D then [CHR 0x5C, CHR ''r'']
      else if c = CHR 0x09 then [CHR 0x5C, CHR ''t'']
      else if (of_char c :: nat) < 0x20 \<or> 0x7E < (of_char c :: nat)
        then [CHR 0x5C, CHR ''u'', CHR ''0'', CHR ''0'',
              hex_digit (of_char c div 16), hex_digit (of_char c mod 16)]
      else [c])"

definition encode_basestring_ascii :: "string \<Rightarrow> string" where
  "encode_basestring_ascii s = CHR 0x22 # concat (map escape_char s) @ [CHR 0x22]"

definition digit_char :: "nat \<Rightarrow> char" where
  "digit_char d = char_of (48 + d mod 10)"

function str_nat :: "nat \<Rightarrow> string" where
  "str_nat n = (if n < 10 then [digit_char n] else str_nat (n div 10) @ [digit_char (n mod 10)])"
  by pat_completeness auto
termination
  by (relation "measure id") auto

definition str_int :: "int \<Rightarrow> string" where
  "str_int i = (if i < 0 then CHR ''-'' # str_nat (nat (- i)) else str_nat (nat i))"

fun join :: "string \<Rightarrow> string list \<Rightarrow> string" where
  "join sep [] = []"
| "join sep [x] = x"
| "join sep (x # y # ys) = x @ sep @ join sep (y # ys)"

text \<open>
  \<^verbatim>\<open>json.dumps\<close> with its default separators \<^verbatim>\<open>', '\<close> and \<^verbatim>\<open>': '\<close>. The two helper
  functions take the already serialised members.
\<close>

definition dumps_member :: "string \<times> string \<Rightarrow> string" where
  "dumps_member kv = encode_basestring_ascii (fst kv) @ '': '' @ snd kv"

primrec json_dumps :: "json \<Rightarrow> string" where
  "json_dumps JNull = ''null''"
| "json_dumps (JBool b) = (if b then ''true'' else ''false'')"
| "json_dumps (JInt i) = str_int i"
| "json_dumps (JFloat lit) = lit"
| "json_dumps (JString s) = encode_basestring_ascii s"
| "json_dumps (JArray xs) = ''['' @ join '', '' (map json_dumps xs) @ '']''"
| "json_dumps (JObject kvs) =
     ''{'' @ join '', '' (map dumps_member (map (map_prod id json_dumps) kvs)) @ ''}''"

subsection \<open>json.loads\<close>

definition is_ws :: "char \<Rightarrow> bool" where
  "is_ws c \<longleftrightarrow> c = CHR '' '' \<or> c = CHR 0x09 \<or> c = CHR 0x0A \<or> c = CHR 0x0D"

definition skip_ws :: "string \<Rightarrow> string" where
  "skip_ws s = dropWhile is_ws s"

definition is_digit :: "char \<Rightarrow> bool" where
  "is_digit c \<longleftrightarrow> (48::nat) \<le> of_char c \<and> (of_char c :: nat) \<le> 57"

definition hex_val :: "char \<Rightarrow> nat option" where
  "hex_val c =
     (let n = (of_char c :: nat) in
      if 48 \<le> n \<and> n \<le> 57 then Some (n - 48)
      else if 97 \<le> n \<and> n \<le> 102 then Some (n - 87)
      else if 65 \<le> n \<and> n \<le> 70 then Some (n - 55)
      else None)"

definition hex4 :: "char \<Rightarrow> char \<Rightarrow> char \<Rightarrow> char \<Rightarrow> nat option" where
  "hex4 a b c d =
     (case (hex_val a, hex_val b, hex_val c, hex_val d) of
        (Some w, Some x, Some y, Some z) \<Rightarrow> Some (((w * 16 + x) * 16 + y) * 16 + z)
      | _ \<Rightarrow> None)"

definition unescape :: "char \<Rightarrow> char option" where
  "unescape e =
     (if e = CHR 0x22 then Some (CHR 0x22)
      else if e = CHR 0x5C then Some (CHR 0x5C)
      else if e = CHR ''/'' then Some (CHR ''/'')
      else if e = CHR ''b'' then Some (CHR 0x08)
      else if e = CHR ''f'' then Some (CHR 0x0C)
      else if e = CHR ''n'' then Some (CHR 0x0A)
      else if e = CHR ''r'' then Some (CHR 0x0D)
      else if e = CHR ''t'' then Some (CHR 0x09)
      else None)"

text \<open>
  \<^verbatim>\<open>scanstring\<close>, called after the opening quote, in strict mode: a raw control
  character is an error. An escape \<^verbatim>\<open>\uXXXX\<close> above 255 has no \<^typ>\<open>char\<close> and is
  outside the model (\<open>None\<close>).
\<close>

fun scanstring :: "string \<Rightarrow> string \<Rightarrow> (string \<times> string) option" where
  "scanstring acc [] = None"
| "scanstring acc (c # cs) =
     (if c = CHR 0x22 then Some (acc, cs)
      else if c = CHR 0x5C then
        (case cs of
           [] \<Rightarrow> None
         | e # r \<Rightarrow>
             if e = CHR ''u'' then
               (case r of
                  h1 # h2 # h3 # h4 # r' \<Rightarrow>
                    (case hex4 h1 h2 h3 h4 of
                       None \<Rightarrow> None
                     | Some n \<Rightarrow> if n < 256 then scanstring (acc @ [char_of n]) r' else None)
                | _ \<Rightarrow> None)
             else
               (case unescape e of
                  None \<Rightarrow> None
                | Some x \<Rightarrow> scanstring (acc @ [x]) r))
      else if (of_char c :: nat) < 0x20 then None
      else scanstring (acc @ [c]) cs)"

definition digits_val :: "string \<Rightarrow> nat" where
  "digits_val ds = foldl (\<lambda>a d. 10 * a + (of_char d - 48)) 0 ds"

text \<open>
  \<^verbatim>\<open>NUMBER_RE = (-?(?:0|[1-9]\d*))(\.\d+)?([eE][-+]?\d+)?\<close>: the three groups are
  matched one after the other, each as far as it goes.
\<close>

definition match_integer :: "string \<Rightarrow> (string \<times> string) option" where
  "match_integer s =
     (let (sign, r) = (case s of c # cs \<Rightarrow> if c = CHR ''-'' then (''-'', cs) else ([], s) | [] \<Rightarrow> ([], s))
      in case r of
           [] \<Rightarrow> None
         | d # ds \<Rightarrow>
             if d = CHR ''0'' then Some (sign @ ''0'', ds)
             else if is_digit d then Some (sign @ takeWhile is_digit r, dropWhile is_digit r)
             else None)"

definition match_frac :: "string \<Rightarrow> string \<times> string" where
  "match_frac s =
     (case s of
        c # d # r \<Rightarrow>
          if c = CHR ''.'' \<and> is_digit d
          then (c # takeWhile is_digit (d # r), dropWhile is_digit (d # r))
          else ([], s)
      | _ \<Rightarrow> ([], s))"

definition match_exp :: "string \<Rightarrow> string \<times> string" where
  "match_exp s =
     (case s of
        [] \<Rightarrow> ([], s)
      | c # r \<Rightarrow>
          if c = CHR ''e'' \<or> c = CHR ''E'' then
            (let (sg, r') = (case r of x # xs \<Rightarrow> if x = CHR ''+'' \<or> x = CHR ''-'' then ([x], xs) else ([], r)
                                      | [] \<Rightarrow> ([], r))
             in case r' of
                  d # ds \<Rightarrow> if is_digit d
                            then (c # sg @ takeWhile is_digit r', dropWhile is_digit r')
                            else ([], s)
                | [] \<Rightarrow> ([], s))
          else ([], s))"

definition int_of_literal :: "string \<Rightarrow> int" where
  "int_of_literal lit =
     (case lit of
        c # cs \<Rightarrow> if c = CHR ''-'' then - int (digits_val cs) else int (digits_val lit)
      | [] \<Rightarrow> 0)"

definition match_number :: "string \<Rightarrow> (json \<times> string) option" where
  "match_number s =
     (case match_integer s of
        None \<Rightarrow> None
      | Some (integer, r) \<Rightarrow>
          (let (frac, r1) = match_frac r; (exp, r2) = match_exp r1
           in if frac \<noteq> [] \<or> exp \<noteq> []
              then Some (JFloat (integer @ frac @ exp), r2)
              else Some (JInt (int_of_literal integer), r2)))"

definition startswith :: "string \<Rightarrow> string \<Rightarrow> bool" where
  "startswith s p \<longleftrightarrow> take (length p) s = p"

text \<open>
  The scanner. Python recurses on the nesting of the document; the model carries fuel,
  one unit for each call, and \<open>json_loads\<close> supplies more than a document of its length
  can use (every second call consumes a character).
\<close>

fun scan_once :: "nat \<Rightarrow> string \<Rightarrow> (json \<times> string) option"
  and JSONArray :: "nat \<Rightarrow> json list \<Rightarrow> string \<Rightarrow> (json \<times> string) option"
  and JSONObject :: "nat \<Rightarrow> (string \<times> json) list \<Rightarrow> string \<Rightarrow> (json \<times> string) option"
where
  "scan_once 0 s = None"
| "scan_once (Suc n) s =
     (case s of
        [] \<Rightarrow> None
      | c # cs \<Rightarrow>
          if c = CHR 0x22 then
            (case scanstring [] cs of None \<Rightarrow> None | Some (x, r) \<Rightarrow> Some (JString x, r))
          else if c = CHR ''{'' then
            (case skip_ws cs of
               [] \<Rightarrow> None
             | d # r \<Rightarrow> if d = CHR ''}'' then Some (JObject [], r) else JSONObject n [] (d # r))
          else if c = CHR ''['' then
            (case skip_ws cs of
               [] \<Rightarrow> None
             | d # r \<Rightarrow> if d = CHR '']'' then Some (JArray [], r) else JSONArray n [] (d # r))
          else if startswith s ''null'' then Some (JNull, drop 4 s)
          else if startswith s ''true'' then Some (JBool True, drop 4 s)
          else if startswith s ''false'' then Some (JBool False, drop 5 s)
          else
            (case match_number s of
               Some m \<Rightarrow> Some m
             | None \<Rightarrow>
                 if startswith s ''NaN'' then Some (JFloat ''NaN'', drop 3 s)
                 else if startswith s ''Infinity'' then Some (JFloat ''Infinity'', drop 8 s)
                 else if startswith s ''-Infinity'' then Some (JFloat ''-Infinity'', drop 9 s)
                 else None))"
| "JSONArray 0 acc s = None"
| "JSONArray (Suc n) acc s =
     (case scan_once n s of
        None \<Rightarrow> None
      | Some (v, r) \<Rightarrow>
          (case skip_ws r of
             [] \<Rightarrow> None
           | d # r' \<Rightarrow>
               if d = CHR '']'' then Some (JArray (acc @ [v]), r')
               else if d = CHR '','' then JSONArray n (acc @ [v]) (skip_ws r')
               else None))"
| "JSONObject 0 acc s = None"
| "JSONObject (Suc n) acc s =
     (case s of
        [] \<Rightarrow> None
      | q # cs \<Rightarrow>
          if q \<noteq> CHR 0x22 then None
          else
            (case scanstring [] cs of
               None \<Rightarrow> None
             | Some (k, r) \<Rightarrow>
                 (case skip_ws r of
                    [] \<Rightarrow> None
                  | colon # r1 \<Rightarrow>
                      if colon \<noteq> CHR '':'' then None
                      else
                        (case scan_once n (skip_ws r1) of
                           None \<Rightarrow> None
                         | Some (v, r2) \<Rightarrow>
                             (case skip_ws r2 of
                                [] \<Rightarrow> None
                              | d # r3 \<Rightarrow>
                                  if d = CHR ''}'' then Some (JObject (AList.update k v acc), r3)
                                  else if d = CHR '','' then JSONObject n (AList.update k v acc) (skip_ws r3)
                                  else None)))))"

definition json_loads :: "string \<Rightarrow> json option" where
  "json_loads s =
     (case scan_once (2 * length s + 2) (skip_ws s) of
        None \<Rightarrow> None
      | Some (v, r) \<Rightarrow> if skip_ws r = [] then Some v else None)"

subsection \<open>str.encode and bytes.decode\<close>

text \<open>
  UTF-8 for the code points of the model: one byte below 128, two bytes (lead \<open>0xC2\<close> or
  \<open>0xC3\<close>) from 128 to 255. A byte sequence that is not UTF-8 raises
  \<^verbatim>\<open>UnicodeDecodeError\<close>; a longer, valid sequence denotes a code point above 255 and is
  outside the model; both are \<open>None\<close>.
\<close>

definition encode_char :: "char \<Rightarrow> string" where
  "encode_char c =
     (if (of_char c :: nat) < 0x80 then [c]
      else [char_of (0xC0 + (of_char c :: nat) div 64), char_of (0x80 + (of_char c :: nat) mod 64)])"

definition encode_utf8 :: "string \<Rightarrow> string" where
  "encode_utf8 s = concat (map encode_char s)"

fun decode_utf8 :: "string \<Rightarrow> string option" where
  "decode_utf8 [] = Some []"
| "decode_utf8 (b # bs) =
     (if (of_char b :: nat) < 0x80 then map_option ((#) b) (decode_utf8 bs)
      else if (of_char b :: nat) = 0xC2 \<or> (of_char b :: nat) = 0xC3 then
        (case bs of
           [] \<Rightarrow> None
         | d # ds \<Rightarrow>
             if 0x80 \<le> (of_char d :: nat) \<and> (of_char d :: nat) < 0xC0
             then map_option ((#) (char_of (((of_char b :: nat) - 0xC0) * 64 + ((of_char d :: nat) - 0x80))))
                    (decode_utf8 ds)
             else None)
      else None)"

section \<open>The S3 client\<close>

text \<open>
  \<^verbatim>\<open>s3_client = boto3.client('s3')\<close> is the only state of the program. A bucket is the
  list of its objects (key and body) in the order S3 enumerates them, which is the
  order of the keys' bytes; \<open>put_object\<close> keeps it so. \<open>outages\<close> is the part of the
  environment the handlers cannot control: one flag for each call still to come, \<open>True\<close>
  when that call raises (the service is unreachable, the credentials lack the
  permission, the request is throttled); past the end of the list every call goes
  through. A call that raises leaves the buckets as they were.
\<close>

type_synonym bucket = "(string \<times> string) list"

record s3 =
  objects :: "string \<Rightarrow> bucket"
  outages :: "bool list"

datatype s3_error = NoSuchKey | ServiceError

record ListObjectsV2Output =
  Contents :: "string list option"
  IsTruncated :: bool

definition failing :: "s3 \<Rightarrow> bool" where
  "failing st = (case outages st of [] \<Rightarrow> False | b # bs \<Rightarrow> b)"

definition next_call :: "s3 \<Rightarrow> s3" where
  "next_call st = st\<lparr>outages := tl (outages st)\<rparr>"

definition remove_key :: "string \<Rightarrow> bucket \<Rightarrow> bucket" where
  "remove_key k b = filter (\<lambda>kv. fst kv \<noteq> k) b"

definition store_key :: "string \<Rightarrow> string \<Rightarrow> bucket \<Rightarrow> bucket" where
  "store_key k v b = insort_key fst (k, v) (remove_key k b)"

definition put_object :: "string \<Rightarrow> string \<Rightarrow> string \<Rightarrow> s3 \<Rightarrow> (s3_error + unit) \<times> s3" where
  "put_object Bucket Key Body st =
     (if failing st then (Inl ServiceError, next_call st)
      else (Inr (), (next_call st)\<lparr>objects := (objects st)(Bucket := store_key Key Body (objects st Bucket))\<rparr>))"

definition get_object :: "string \<Rightarrow> string \<Rightarrow> s3 \<Rightarrow> (s3_error + string) \<times> s3" where
  "get_object Bucket Key st =
     (if failing st then (Inl ServiceError, next_call st)
      else case map_of (objects st Bucket) Key of
             None \<Rightarrow> (Inl NoSuchKey, next_call st)
           | Some body \<Rightarrow> (Inr body, next_call st))"

text \<open>Deleting a key that is not there succeeds, as in S3.\<close>

definition delete_object :: "string \<Rightarrow> string \<Rightarrow> s3 \<Rightarrow> (s3_error + unit) \<times> s3" where
  "delete_object Bucket Key st =
     (if failing st then (Inl ServiceError, next_call st)
      else (Inr (), (next_call st)\<lparr>objects := (objects st)(Bucket := remove_key Key (objects st Bucket))\<rparr>))"

text \<open>
  One \<^verbatim>\<open>ListObjectsV2\<close> request answers with at most \<open>MaxKeys\<close> keys, 1000 unless the
  caller asks for fewer, and sets \<open>IsTruncated\<close> when the bucket holds more. The
  response of an empty bucket has no \<open>Contents\<close> entry.
\<close>

definition MaxKeys :: nat where
  "MaxKeys = 1000"

definition list_objects_v2 :: "string \<Rightarrow> s3 \<Rightarrow> (s3_error + ListObjectsV2Output) \<times> s3" where
  "list_objects_v2 Bucket st =
     (if failing st then (Inl ServiceError, next_call st)
      else
        (let keys = map fst (objects st Bucket)
         in (Inr \<lparr>Contents = (if keys = [] then None else Some (take MaxKeys keys)),
                  IsTruncated = (MaxKeys < length keys)\<rparr>, next_call st)))"

section \<open>The handlers of main.py\<close>

definition PENDING_BUCKET :: string where
  "PENDING_BUCKET = ''movies-stage''"

definition FINAL_BUCKET :: string where
  "FINAL_BUCKET = ''movies-final''"

record Movie =
  title :: string
  year :: int
  genre :: string

definition dict :: "Movie \<Rightarrow> json" where
  "dict movie =
     JObject [(''title'', JString (title movie)), (''year'', JInt (year movie)),
              (''genre'', JString (genre movie))]"

text \<open>
  What a handler raises. \<open>ValueError\<close> stands for \<^verbatim>\<open>UnicodeDecodeError\<close> and
  \<^verbatim>\<open>JSONDecodeError\<close>, both subclasses of it.
\<close>

datatype exn = ClientError s3_error | ValueError | HTTPException nat string

definition object_key :: "string \<Rightarrow> string" where
  "object_key movie_id = movie_id @ ''.json''"

text \<open>
  \<^verbatim>\<open>submit_movie\<close>. \<open>uuid4\<close> is the string that \<^verbatim>\<open>str(uuid.uuid4())\<close> returns in this
  call: the handler draws it from the operating system's random source, so it is an
  input of the model. The string that \<open>json.dumps\<close> returns is sent as its UTF-8 bytes.
\<close>

definition submit_movie :: "string \<Rightarrow> Movie \<Rightarrow> s3 \<Rightarrow> (exn + json) \<times> s3" where
  "submit_movie uuid4 movie st =
     (let movie_id = uuid4;
          movie_data = dict movie
      in case put_object PENDING_BUCKET (object_key movie_id) (encode_utf8 (json_dumps movie_data)) st of
           (Inl e, st') \<Rightarrow> (Inl (ClientError e), st')
         | (Inr _, st') \<Rightarrow>
             (Inr (JObject [(''message'', JString ''Movie submitted for approval.''),
                            (''movie_id'', JString movie_id)]), st'))"

text \<open>\<^verbatim>\<open>get_movies\<close>: the loop over \<open>response['Contents']\<close>, then the handler.\<close>

fun get_movies_loop :: "string list \<Rightarrow> json list \<Rightarrow> s3 \<Rightarrow> (exn + json list) \<times> s3" where
  "get_movies_loop [] movies st = (Inr movies, st)"
| "get_movies_loop (Key # keys) movies st =
     (case get_object FINAL_BUCKET Key st of
        (Inl e, st') \<Rightarrow> (Inl (ClientError e), st')
      | (Inr body, st') \<Rightarrow>
          (case decode_utf8 body of
             None \<Rightarrow> (Inl ValueError, st')
           | Some text \<Rightarrow>
               (case json_loads text of
                  None \<Rightarrow> (Inl ValueError, st')
                | Some movie \<Rightarrow> get_movies_loop keys (movies @ [movie]) st')))"

definition get_movies :: "s3 \<Rightarrow> (exn + json) \<times> s3" where
  "get_movies st =
     (case list_objects_v2 FINAL_BUCKET st of
        (Inl e, st') \<Rightarrow> (Inl (ClientError e), st')
      | (Inr response, st') \<Rightarrow>
          (case Contents response of
             None \<Rightarrow> (Inr (JArray []), st')
           | Some keys \<Rightarrow>
               (case get_movies_loop keys [] st' of
                  (Inl e, st'') \<Rightarrow> (Inl e, st'')
                | (Inr movies, st'') \<Rightarrow> (Inr (JArray movies), st''))))"

text \<open>
  \<^verbatim>\<open>approve_movie\<close>: the body of the \<open>try\<close>, then the handler, whose
  \<^verbatim>\<open>except Exception\<close> turns whatever the body raised into the one \<open>HTTPException\<close>.
\<close>

definition approve_movie_try :: "string \<Rightarrow> s3 \<Rightarrow> (s3_error + json) \<times> s3" where
  "approve_movie_try movie_id st =
     (case get_object PENDING_BUCKET (object_key movie_id) st of
        (Inl e, st1) \<Rightarrow> (Inl e, st1)
      | (Inr body, st1) \<Rightarrow>
          (case put_object FINAL_BUCKET (object_key movie_id) body st1 of
             (Inl e, st2) \<Rightarrow> (Inl e, st2)
           | (Inr _, st2) \<Rightarrow>
               (case delete_object PENDING_BUCKET (object_key movie_id) st2 of
                  (Inl e, st3) \<Rightarrow> (Inl e, st3)
                | (Inr _, st3) \<Rightarrow>
                    (Inr (JObject [(''message'', JString ''Movie approved and moved to final bucket.'')]),
                     st3))))"

definition approve_movie :: "string \<Rightarrow> s3 \<Rightarrow> (exn + json) \<times> s3" where
  "approve_movie movie_id st =
     (case approve_movie_try movie_id st of
        (Inl e, st') \<Rightarrow> (Inl (HTTPException 400 ''Movie not found or already approved.''), st')
      | (Inr r, st') \<Rightarrow> (Inr r, st'))"

section \<open>Runs of the service\<close>

text \<open>
  A sequential run is a list of calls, each handled to its end before the next begins.
  \<open>Submit\<close> carries the identifier that \<open>uuid4\<close> draws in that call.
\<close>

datatype call = Submit string Movie | ListFinal | Approve string

fun handle :: "call \<Rightarrow> s3 \<Rightarrow> (exn + json) \<times> s3" where
  "handle (Submit uuid4 movie) st = submit_movie uuid4 movie st"
| "handle ListFinal st = get_movies st"
| "handle (Approve movie_id) st = approve_movie movie_id st"

fun run :: "call list \<Rightarrow> s3 \<Rightarrow> s3" where
  "run [] st = st"
| "run (c # cs) st = run cs (snd (handle c st))"


definition empty_buckets :: "bool list \<Rightarrow> s3" where
  "empty_buckets outs = \<lparr>objects = (\<lambda>Bucket. []), outages = outs\<rparr>"

definition pending :: "s3 \<Rightarrow> bucket" where
  "pending st = objects st PENDING_BUCKET"

definition final :: "s3 \<Rightarrow> bucket" where
  "final st = objects st FINAL_BUCKET"

definition available :: "s3 \<Rightarrow> bool" where
  "available st \<longleftrightarrow> True \<notin> set (outages st)"



subsection \<open>Example data\<close>

definition dune :: Movie where
  "dune = \<lparr>title = ''Dune'', year = 1984, genre = ''SciFi''\<rparr>"


definition awaiting :: s3 where
  "awaiting = run [Submit ''m1'' dune] (empty_buckets [])"

definition delete_denied :: s3 where
  "delete_denied = run [Submit ''m1'' dune] (empty_buckets [False, False, False, True])"


text \<open>Identifiers of the shape \<open>uuid4\<close> gives, and the keys of the first \<open>n\<close> of them.\<close>

definition nth_uuid :: "nat \<Rightarrow> string" where
  "nth_uuid i =
     ''00000000-0000-4000-8000-000000000'' @ [hex_digit (i div 256), hex_digit (i div 16), hex_digit i]"


definition many_keys :: "nat \<Rightarrow> string list" where
  "many_keys n = map (\<lambda>i. object_key (nth_uuid i)) [0..<n]"

definition filled :: "nat \<Rightarrow> bucket" where
  "filled n = map (\<lambda>Key. (Key, encode_utf8 (json_dumps (dict dune)))) (many_keys n)"




section \<open>Facts about the codecs\<close>

declare str_nat.simps [simp del]

subsection \<open>UTF-8\<close>






subsection \<open>What json.loads reads back\<close>

lemma hex_val_hex_digit_all: "list_all (\<lambda>d. hex_val (hex_digit d) = Some d) [0..<16]"
  by code_simp

lemma hex_val_hex_digit: "d < 16 \<Longrightarrow> hex_val (hex_digit d) = Some d"
  using hex_val_hex_digit_all by (simp add: list_all_iff)




































section \<open>Facts about the buckets\<close>

lemma map_of_remove_key: "map_of (remove_key k b) = (map_of b)(k := None)"
  by (induction b) (auto simp: remove_key_def fun_eq_iff)

lemma map_of_insort_fresh:
  "k \<notin> fst ` set b \<Longrightarrow> map_of (insort_key fst (k, v) b) = (map_of b)(k \<mapsto> v)"
  by (induction b) (auto simp: fun_eq_iff)

lemma keys_remove_key: "fst ` set (remove_key k b) = fst ` set b - {k}"
  by (auto simp: remove_key_def)

lemma map_of_store_key: "map_of (store_key k v b) = (map_of b)(k \<mapsto> v)"
  by (simp add: store_key_def map_of_insort_fresh keys_remove_key map_of_remove_key)



lemma objects_next_call: "objects (next_call st) = objects st"
  by (simp add: next_call_def)

lemma available_next_call: "available st \<Longrightarrow> available (next_call st)"
  by (cases "outages st") (auto simp: next_call_def available_def)

lemma available_not_failing: "available st \<Longrightarrow> \<not> failing st"
  by (cases "outages st") (auto simp: failing_def available_def)

lemma available_objects_update: "available (st\<lparr>objects := f\<rparr>) = available st"
  by (simp add: available_def)

lemma bucket_names: "PENDING_BUCKET \<noteq> FINAL_BUCKET"
  by (simp add: PENDING_BUCKET_def FINAL_BUCKET_def)

lemmas store_simps = objects_next_call available_next_call available_not_failing
  available_objects_update

lemmas s3_defs = get_object_def put_object_def delete_object_def

lemma awaiting_eq:
  "awaiting = \<lparr>objects = (\<lambda>Bucket. [])(PENDING_BUCKET := [(''m1.json'', encode_utf8 (json_dumps (dict dune)))]),
               outages = []\<rparr>"
  by (simp add: awaiting_def empty_buckets_def submit_movie_def put_object_def failing_def
      next_call_def store_key_def remove_key_def object_key_def)

section \<open>approve\<close>

text \<open>
  C1. When the object \<open>{movie_id}.json\<close> is in the pending bucket and the three calls to
  S3 go through, \<open>approve_movie\<close> answers with the confirmation message, the final bucket
  gains the same bytes under the same key, and the key is gone from the pending bucket.
\<close>

theorem approve_moves_object:
  assumes "map_of (pending st) (object_key movie_id) = Some body" and "available st"
  shows "fst (approve_movie movie_id st) =
           Inr (JObject [(''message'', JString ''Movie approved and moved to final bucket.'')])
       \<and> final (snd (approve_movie movie_id st)) = store_key (object_key movie_id) body (final st)
       \<and> pending (snd (approve_movie movie_id st)) = remove_key (object_key movie_id) (pending st)
       \<and> map_of (final (snd (approve_movie movie_id st))) (object_key movie_id) = Some body
       \<and> map_of (pending (snd (approve_movie movie_id st))) (object_key movie_id) = None"
  using assms bucket_names
  by (simp add: approve_movie_def approve_movie_try_def s3_defs store_simps pending_def final_def
      map_of_store_key map_of_remove_key)

theorem approve_moves_object_witness:
  "map_of (pending awaiting) (object_key ''m1'') = Some (encode_utf8 (json_dumps (dict dune)))
   \<and> available awaiting
   \<and> fst (approve_movie ''m1'' awaiting) =
        Inr (JObject [(''message'', JString ''Movie approved and moved to final bucket.'')])
   \<and> final (snd (approve_movie ''m1'' awaiting)) = [(''m1.json'', encode_utf8 (json_dumps (dict dune)))]
   \<and> pending (snd (approve_movie ''m1'' awaiting)) = []"
proof -
  have h1: "map_of (pending awaiting) (object_key ''m1'') = Some (encode_utf8 (json_dumps (dict dune)))"
    by (simp add: awaiting_eq pending_def object_key_def)
  have h2: "available awaiting"
    by (simp add: awaiting_eq available_def)
  have e1: "store_key (object_key ''m1'') (encode_utf8 (json_dumps (dict dune))) (final awaiting)
             = [(''m1.json'', encode_utf8 (json_dumps (dict dune)))]"
    using bucket_names by (simp add: awaiting_eq final_def store_key_def remove_key_def object_key_def)
  have e2: "remove_key (object_key ''m1'') (pending awaiting) = []"
    by (simp add: awaiting_eq pending_def remove_key_def object_key_def)
  show ?thesis
    using h1 h2 approve_moves_object [OF h1 h2] by (simp add: e1 e2)
qed

text \<open>
  C2. When the pending bucket has no object \<open>{movie_id}.json\<close>, \<open>approve_movie\<close> raises
  the \<open>HTTPException\<close> with status 400 and the detail
  \<^verbatim>\<open>Movie not found or already approved.\<close>, whatever the state of the service.
\<close>

theorem approve_absent_400:
  assumes "map_of (pending st) (object_key movie_id) = None"
  shows "fst (approve_movie movie_id st) =
           Inl (HTTPException 400 ''Movie not found or already approved.'')"
  using assms
  by (simp add: approve_movie_def approve_movie_try_def get_object_def pending_def)

theorem approve_absent_400_witness:
  "map_of (pending awaiting) (object_key ''m2'') = None
   \<and> fst (approve_movie ''m2'' awaiting) =
        Inl (HTTPException 400 ''Movie not found or already approved.'')"
proof -
  have h: "map_of (pending awaiting) (object_key ''m2'') = None"
    by (simp add: awaiting_eq pending_def object_key_def)
  show ?thesis
    using h approve_absent_400 [OF h] by simp
qed

text \<open>
  C10. When \<open>approve_movie\<close> is called for a key that the pending bucket does not hold,
  no bucket changes: the failing path neither writes nor deletes.
\<close>

theorem approve_absent_unchanged:
  assumes "map_of (pending st) (object_key movie_id) = None"
  shows "pending (snd (approve_movie movie_id st)) = pending st
       \<and> final (snd (approve_movie movie_id st)) = final st
       \<and> objects (snd (approve_movie movie_id st)) = objects st"
  using assms
  by (simp add: approve_movie_def approve_movie_try_def get_object_def pending_def final_def
      objects_next_call)

theorem approve_absent_unchanged_witness:
  "map_of (pending awaiting) (object_key ''m2'') = None
   \<and> pending (snd (approve_movie ''m2'' awaiting)) = pending awaiting
   \<and> final (snd (approve_movie ''m2'' awaiting)) = final awaiting"
proof -
  have h: "map_of (pending awaiting) (object_key ''m2'') = None"
    by (simp add: awaiting_eq pending_def object_key_def)
  show ?thesis
    using h approve_absent_unchanged [OF h] by simp
qed

text \<open>
  C9. Whatever the body of the \<open>try\<close> raises, \<open>approve_movie\<close> raises the same
  \<open>HTTPException\<close> 400: when the read from the pending bucket fails, when the write to
  the final bucket fails, and when the delete from the pending bucket fails. In the
  last case the object is already in the final bucket, and still in the pending one.
\<close>

theorem approve_exceptions_become_400:
  assumes "map_of (pending st) (object_key movie_id) = Some body"
    and "outages st = True # later \<or> outages st = False # True # later
         \<or> outages st = False # False # True # later"
  shows "fst (approve_movie_try movie_id st) = Inl ServiceError
       \<and> fst (approve_movie movie_id st) =
           Inl (HTTPException 400 ''Movie not found or already approved.'')
       \<and> pending (snd (approve_movie movie_id st)) = pending st
       \<and> (outages st = False # False # True # later \<longrightarrow>
            final (snd (approve_movie movie_id st)) = store_key (object_key movie_id) body (final st)
          \<and> map_of (final (snd (approve_movie movie_id st))) (object_key movie_id) = Some body
          \<and> map_of (pending (snd (approve_movie movie_id st))) (object_key movie_id) = Some body)
       \<and> (outages st \<noteq> False # False # True # later \<longrightarrow>
            final (snd (approve_movie movie_id st)) = final st)"
  using assms bucket_names
  by (auto simp: approve_movie_def approve_movie_try_def s3_defs failing_def next_call_def
      pending_def final_def map_of_store_key)

lemma delete_denied_eq:
  "delete_denied =
     \<lparr>objects = (\<lambda>Bucket. [])(PENDING_BUCKET := [(''m1.json'', encode_utf8 (json_dumps (dict dune)))]),
      outages = [False, False, True]\<rparr>"
  by (simp add: delete_denied_def empty_buckets_def submit_movie_def put_object_def failing_def
      next_call_def store_key_def remove_key_def object_key_def)

theorem approve_exceptions_become_400_witness:
  "map_of (pending delete_denied) (object_key ''m1'') = Some (encode_utf8 (json_dumps (dict dune)))
   \<and> outages delete_denied = False # False # True # []
   \<and> fst (approve_movie ''m1'' delete_denied) =
        Inl (HTTPException 400 ''Movie not found or already approved.'')
   \<and> map_of (final (snd (approve_movie ''m1'' delete_denied))) (object_key ''m1'')
        = Some (encode_utf8 (json_dumps (dict dune)))
   \<and> map_of (pending (snd (approve_movie ''m1'' delete_denied))) (object_key ''m1'')
        = Some (encode_utf8 (json_dumps (dict dune)))"
proof -
  have h1: "map_of (pending delete_denied) (object_key ''m1'')
              = Some (encode_utf8 (json_dumps (dict dune)))"
    by (simp add: delete_denied_eq pending_def object_key_def)
  have h2: "outages delete_denied = False # False # True # []"
    by (simp add: delete_denied_eq)
  have h3: "outages delete_denied = True # [] \<or> outages delete_denied = False # True # []
            \<or> outages delete_denied = False # False # True # []"
    using h2 by simp
  show ?thesis
    using h1 h2 approve_exceptions_become_400 [OF h1 h3] by (simp add: map_of_store_key)
qed

section \<open>Facts about the handlers\<close>













lemma object_key_inj: "object_key a = object_key b \<longleftrightarrow> a = b"
  by (simp add: object_key_def)










section \<open>submit\<close>








section \<open>The two buckets\<close>








section \<open>list\<close>









lemma keys_filled: "map fst (filled n) = many_keys n"
  by (simp add: filled_def comp_def)






section \<open>What a listing shows\<close>














section \<open>approve, then list\<close>











section \<open>The buckets of the two counterexamples\<close>

text \<open>
  The buckets \<open>filled n\<close> used above are buckets as S3 keeps them: their keys are
  pairwise different and in the order of enumeration.
\<close>

lemma hex_digit_mod: "hex_digit a = hex_digit b \<Longrightarrow> a mod 16 = b mod 16"
proof -
  assume e: "hex_digit a = hex_digit b"
  have "hex_digit a = hex_digit (a mod 16)" "hex_digit b = hex_digit (b mod 16)"
    by (simp_all add: hex_digit_def)
  then have "hex_val (hex_digit (a mod 16)) = hex_val (hex_digit (b mod 16))"
    using e by simp
  then show ?thesis
    by (simp add: hex_val_hex_digit)
qed

lemma nth_uuid_inj:
  assumes "nth_uuid i = nth_uuid j" and "i < 4096" and "j < 4096"
  shows "i = j"
proof -
  have h: "(i div 256) mod 16 = (j div 256) mod 16" "(i div 16) mod 16 = (j div 16) mod 16"
    "i mod 16 = j mod 16"
  proof -
    have e: "hex_digit (i div 256) = hex_digit (j div 256)" "hex_digit (i div 16) = hex_digit (j div 16)"
      "hex_digit i = hex_digit j"
      using assms(1) by (simp_all add: nth_uuid_def)
    show "(i div 256) mod 16 = (j div 256) mod 16"
      by (rule hex_digit_mod [OF e(1)])
    show "(i div 16) mod 16 = (j div 16) mod 16"
      by (rule hex_digit_mod [OF e(2)])
    show "i mod 16 = j mod 16"
      by (rule hex_digit_mod [OF e(3)])
  qed
  have "i div 256 < 16" "j div 256 < 16"
    using assms(2,3) by (simp_all add: div_less_iff_less_mult)
  then have a: "i div 256 = j div 256"
    using h(1) by simp
  have d: "i div 16 div 16 = i div 256" "j div 16 div 16 = j div 256"
    using div_mult2_eq [of i 16 16] div_mult2_eq [of j 16 16] by simp_all
  have "i div 16 = (i div 16 div 16) * 16 + (i div 16) mod 16"
    by (simp only: div_mult_mod_eq)
  also have "\<dots> = (j div 16 div 16) * 16 + (j div 16) mod 16"
    by (simp only: d a h(2))
  also have "\<dots> = j div 16"
    by (simp only: div_mult_mod_eq)
  finally have b: "i div 16 = j div 16" .
  have "i = (i div 16) * 16 + i mod 16"
    by (simp only: div_mult_mod_eq)
  also have "\<dots> = (j div 16) * 16 + j mod 16"
    by (simp only: b h(3))
  also have "\<dots> = j"
    by (simp only: div_mult_mod_eq)
  finally show ?thesis .
qed

lemma distinct_many_keys:
  assumes "n \<le> 4096"
  shows "distinct (many_keys n)"
proof -
  have "inj_on (\<lambda>i. object_key (nth_uuid i)) (set [0..<n])"
  proof (rule inj_onI)
    fix i j
    assume "i \<in> set [0..<n]" "j \<in> set [0..<n]" "object_key (nth_uuid i) = object_key (nth_uuid j)"
    then have "nth_uuid i = nth_uuid j" "i < 4096" "j < 4096"
      using assms by (simp_all add: object_key_inj)
    then show "i = j"
      by (rule nth_uuid_inj)
  qed
  then show ?thesis
    unfolding many_keys_def by (simp only: distinct_map distinct_upt simp_thms)
qed

lemma distinct_filled: "n \<le> 4096 \<Longrightarrow> distinct (map fst (filled n))"
  by (simp add: keys_filled distinct_many_keys)

lemma hex_digit_less_all:
  "list_all (\<lambda>a. list_all (\<lambda>b. a < b \<longrightarrow> hex_digit a < hex_digit b) [0..<16]) [0..<16]"
  by code_simp

lemma hex_digit_less:
  assumes "a mod 16 < b mod 16"
  shows "hex_digit a < hex_digit b"
proof -
  have "hex_digit (a mod 16) < hex_digit (b mod 16)"
    using hex_digit_less_all assms by (simp add: list_all_iff)
  then show ?thesis
    by (simp add: hex_digit_def)
qed

lemma digits_lex:
  fixes i j :: nat
  assumes "i < j" and "j < 4096"
  shows "i div 256 mod 16 < j div 256 mod 16
       \<or> hex_digit (i div 256) = hex_digit (j div 256)
          \<and> (i div 16 mod 16 < j div 16 mod 16
             \<or> hex_digit (i div 16) = hex_digit (j div 16) \<and> i mod 16 < j mod 16)"
proof -
  have b: "i div 256 < 16" "j div 256 < 16"
    using assms by (simp_all add: div_less_iff_less_mult)
  have m: "i div 256 mod 16 = i div 256" "j div 256 mod 16 = j div 256"
    using b by simp_all
  have d: "i div 16 div 16 = i div 256" "j div 16 div 16 = j div 256"
    using div_mult2_eq [of i 16 16] div_mult2_eq [of j 16 16] by simp_all
  have i16: "i div 16 = (i div 256) * 16 + i div 16 mod 16"
    using div_mult_mod_eq [of "i div 16" 16] by (simp only: d)
  have j16: "j div 16 = (j div 256) * 16 + j div 16 mod 16"
    using div_mult_mod_eq [of "j div 16" 16] by (simp only: d)
  have ii: "i = (i div 16) * 16 + i mod 16" and jj: "j = (j div 16) * 16 + j mod 16"
    by (simp_all only: div_mult_mod_eq)
  have le: "i div 16 \<le> j div 16"
    using assms(1) by (simp add: div_le_mono)
  have le2: "i div 256 \<le> j div 256"
    using assms(1) by (simp add: div_le_mono)
  show ?thesis
  proof (cases "i div 256 < j div 256")
    case True
    then show ?thesis by (simp add: m)
  next
    case False
    then have e1: "i div 256 = j div 256"
      using le2 by simp
    show ?thesis
    proof (cases "i div 16 mod 16 < j div 16 mod 16")
      case True
      then show ?thesis by (simp add: e1)
    next
      case False
      have "i div 16 mod 16 \<le> j div 16 mod 16"
        using le i16 j16 e1 by linarith
      then have e2: "i div 16 = j div 16"
        using False i16 j16 e1 by linarith
      have "i mod 16 < j mod 16"
        using assms(1) ii jj e2 by linarith
      then show ?thesis
        by (simp add: e1 e2)
    qed
  qed
qed

lemma nth_uuid_less:
  assumes "i < j" and "j < 4096"
  shows "object_key (nth_uuid i) < object_key (nth_uuid j)"
proof -
  from digits_lex [OF assms]
  have "hex_digit (i div 256) < hex_digit (j div 256)
       \<or> hex_digit (i div 256) = hex_digit (j div 256)
          \<and> (hex_digit (i div 16) < hex_digit (j div 16)
             \<or> hex_digit (i div 16) = hex_digit (j div 16) \<and> hex_digit i < hex_digit j)"
    using hex_digit_less by blast
  then show ?thesis
    by (simp add: object_key_def nth_uuid_def)
qed

lemma sorted_many_keys:
  assumes "n \<le> 4096"
  shows "sorted (many_keys n)"
proof -
  have "sorted_wrt (\<lambda>i j. object_key (nth_uuid i) \<le> object_key (nth_uuid j)) [0..<n]"
  proof (rule sorted_wrt_mono_rel [of _ "\<lambda>i j. i < j"])
    fix i j
    assume "i \<in> set [0..<n]" "j \<in> set [0..<n]" "i < j"
    then have "object_key (nth_uuid i) < object_key (nth_uuid j)"
      using assms by (intro nth_uuid_less) simp_all
    then show "object_key (nth_uuid i) \<le> object_key (nth_uuid j)"
      by (rule less_imp_le)
  next
    show "sorted_wrt (<) [0..<n]"
      by (induction n) (auto simp: sorted_wrt_append)
  qed
  then show ?thesis
    unfolding many_keys_def by (simp only: sorted_wrt_map)
qed

lemma filled_is_bucket:
  assumes "n \<le> 4096"
  shows "sorted (map fst (filled n)) \<and> distinct (map fst (filled n))"
  using assms by (simp only: keys_filled sorted_many_keys distinct_many_keys simp_thms)

end
